theory Spec2Isabelle
  imports Complex_Main "HOL-Library.Char_ord" "HOL-Library.List_Lexorder"
    "HOL-Library.Product_Lexorder" "HOL-Library.Multiset" "HOL-Library.Sublist"
    "HOL-Library.Log_Nat"
begin

section \<open>Data model of model.py\<close>

text \<open>
  The pipeline of \<^verbatim>\<open>model.py\<close> works on pandas data frames. A frame is modelled as
  the list of its rows, in row order. Numbers of type float64 are the rationals they denote
  (type \<open>rat\<close>). The division and the multiplication that compute a percentage are
  rounded as float64 rounds them; the mean of a column and the difference of a score and an
  average are taken exactly. Exceptions of the Python run time are values of
  type \<open>error\<close>; a function that can raise returns \<open>error + result\<close>. The column
  \<^verbatim>\<open>section\<close> is the field \<open>section_code\<close> of a record, and the columns
  \<^verbatim>\<open>sum\<close> and \<^verbatim>\<open>count\<close> of the two aggregate tables carry the prefix of
  their table.
\<close>

datatype error = ZeroDivisionError | IndexError | KeyError

text \<open>
  A cell of the \<^verbatim>\<open>is_correct\<close> column as it arrives: a Python boolean or a
  string. Frames with a missing cell (NaN) in that column are not modelled.
\<close>

datatype pyobj = PyBool bool | PyStr string

record 'c question_record =
  student_id :: int
  section_code :: string
  is_correct :: 'c

type_synonym dataframe = "pyobj question_record list"

record section_performance =
  sp_student_id :: int
  sp_section :: string
  sp_sum :: nat
  sp_count :: nat
  score_percentage :: rat

record overall_performance =
  so_student_id :: int
  so_sum :: nat
  so_count :: nat
  overall_score :: rat

record learning_rate_row =
  lr_student_id :: int
  learning_rate :: int

section \<open>Helpers for pandas operations\<close>

text \<open>
  \<^verbatim>\<open>Series.unique()\<close>: the distinct values in order of first appearance.
\<close>

definition unique :: "'a list \<Rightarrow> 'a list" where
  "unique xs = rev (remdups (rev xs))"

text \<open>
  \<^verbatim>\<open>groupby(keys)\<close> with its default \<^verbatim>\<open>sort=True\<close>: one group per distinct
  key, the groups in ascending key order.
\<close>

definition group_keys :: "('k::linorder) list \<Rightarrow> 'k list" where
  "group_keys ks = sort (remdups ks)"

text \<open>
  A loop whose body can raise: the first error ends the loop, as the exception would.
\<close>

fun traverse :: "('a \<Rightarrow> error + 'b) \<Rightarrow> 'a list \<Rightarrow> error + 'b list" where
  "traverse f [] = Inr []"
| "traverse f (x # xs) =
     (case f x of
        Inl e \<Rightarrow> Inl e
      | Inr y \<Rightarrow> (case traverse f xs of Inl e \<Rightarrow> Inl e | Inr ys \<Rightarrow> Inr (y # ys)))"

section \<open>calculate\_student\_metrics\<close>

text \<open>
  \<^verbatim>\<open>if data['is_correct'].dtype == 'object'\<close>: a column whose cells are all Python
  booleans has dtype bool; a column holding a string, and the column of an empty frame, has
  dtype object.
\<close>

fun is_PyBool :: "pyobj \<Rightarrow> bool" where
  "is_PyBool (PyBool b) = True"
| "is_PyBool c = False"

definition dtype_is_object :: "pyobj list \<Rightarrow> bool" where
  "dtype_is_object col = (col = [] \<or> \<not> list_all is_PyBool col)"

text \<open>
  \<^verbatim>\<open>.map({'true': True, 'false': False})\<close> looks every cell up in the dictionary;
  a cell that is not one of its two keys (any other string, and also a Python boolean
  standing in an object column) becomes NaN, here \<open>None\<close>.
\<close>

fun map_true_false :: "pyobj \<Rightarrow> bool option" where
  "map_true_false (PyStr s) =
     (if s = ''true'' then Some True else if s = ''false'' then Some False else None)"
| "map_true_false c = None"

text \<open>The cell of a bool column, read as it is.\<close>

fun bool_cell :: "pyobj \<Rightarrow> bool option" where
  "bool_cell (PyBool b) = Some b"
| "bool_cell c = None"

definition convert_is_correct :: "dataframe \<Rightarrow> bool option question_record list" where
  "convert_is_correct data =
     (if dtype_is_object (map is_correct data)
      then map (\<lambda>r. \<lparr>student_id = student_id r, section_code = section_code r,
                      is_correct = map_true_false (is_correct r)\<rparr>) data
      else map (\<lambda>r. \<lparr>student_id = student_id r, section_code = section_code r,
                      is_correct = bool_cell (is_correct r)\<rparr>) data)"

text \<open>
  \<^verbatim>\<open>agg(['sum', 'count'])\<close>: \<^verbatim>\<open>sum\<close> adds the true cells of a group,
  \<^verbatim>\<open>count\<close> counts its cells that are not missing.
\<close>

definition agg_sum :: "bool option list \<Rightarrow> nat" where
  "agg_sum cells = length (filter (\<lambda>c. c = Some True) cells)"

definition agg_count :: "bool option list \<Rightarrow> nat" where
  "agg_count cells = length (filter (\<lambda>c. c \<noteq> None) cells)"

text \<open>
  Rounding to float64: to the nearest number with a significand of 53 bits, a tie going to
  the even significand. The range of the exponent is not bounded here; float64 agrees with
  this for every number whose magnitude lies between \<open>2 powi - 1022\<close> and \<open>2 powi 1024\<close>,
  which holds for every quotient and percentage of counts that a frame can reach. The
  counts themselves are below \<open>2 ^ 53\<close> in every such frame and are converted to float64
  without rounding.
\<close>

definition round_half_even :: "rat \<Rightarrow> int" where
  "round_half_even x =
     (let n = \<lfloor>x\<rfloor>; r = x - of_int n
      in if r < 1 / 2 then n else if 1 / 2 < r then n + 1 else if even n then n else n + 1)"

text \<open>The exponent \<open>e\<close> of a number \<open>x\<close> other than zero: \<open>2 powi e \<le> \<bar>x\<bar> < 2 powi (e + 1)\<close>.\<close>

definition binary_exponent :: "rat \<Rightarrow> int" where
  "binary_exponent x =
     (let k = bitlen (fst (quotient_of \<bar>x\<bar>)) - bitlen (snd (quotient_of \<bar>x\<bar>))
      in if 2 powi k \<le> \<bar>x\<bar> then k else k - 1)"

definition float64_round :: "rat \<Rightarrow> rat" where
  "float64_round x =
     (if x = 0 then 0
      else let e = binary_exponent x - 52
           in of_int (round_half_even (x / 2 powi e)) * 2 powi e)"

text \<open>
  \<^verbatim>\<open>(sum / count) * 100\<close>: a float64 division and a float64 multiplication. There is
  a group only for a key that has a row in the frame, so the count of a group is zero only
  when all its cells are missing. That happens in columns of dtype object only, where the
  division is Python's division of objects and raises.
\<close>

definition percentage :: "nat \<Rightarrow> nat \<Rightarrow> error + rat" where
  "percentage s c =
     (if c = 0 then Inl ZeroDivisionError
      else Inr (float64_round (float64_round (of_nat s / of_nat c) * 100)))"

text \<open>The grouping key of \<^verbatim>\<open>groupby(['student_id', 'section'])\<close>.\<close>

definition record_key :: "'c question_record \<Rightarrow> int \<times> string" where
  "record_key r = (student_id r, section_code r)"

text \<open>The cells of one group: of a (student, section) pair, and of a student.\<close>

definition section_cells ::
  "bool option question_record list \<Rightarrow> int \<times> string \<Rightarrow> bool option list" where
  "section_cells data k =
     map is_correct (filter (\<lambda>r. record_key r = k) data)"

definition student_cells :: "bool option question_record list \<Rightarrow> int \<Rightarrow> bool option list" where
  "student_cells data sid = map is_correct (filter (\<lambda>r. student_id r = sid) data)"

definition section_group ::
  "bool option question_record list \<Rightarrow> int \<times> string \<Rightarrow> error + section_performance" where
  "section_group data k =
     (let cells = section_cells data k
      in case percentage (agg_sum cells) (agg_count cells) of
           Inl e \<Rightarrow> Inl e
         | Inr p \<Rightarrow> Inr \<lparr>sp_student_id = fst k, sp_section = snd k, sp_sum = agg_sum cells,
                         sp_count = agg_count cells, score_percentage = p\<rparr>)"

definition overall_group ::
  "bool option question_record list \<Rightarrow> int \<Rightarrow> error + overall_performance" where
  "overall_group data sid =
     (let cells = student_cells data sid
      in case percentage (agg_sum cells) (agg_count cells) of
           Inl e \<Rightarrow> Inl e
         | Inr p \<Rightarrow> Inr \<lparr>so_student_id = sid, so_sum = agg_sum cells,
                         so_count = agg_count cells, overall_score = p\<rparr>)"

text \<open>
  The function also stores the converted column in the frame of its caller; the later steps
  of the pipeline read the student ids of that frame only, so the model returns the three
  tables and leaves the frame alone.
\<close>

definition calculate_student_metrics ::
  "dataframe \<Rightarrow>
     error + (section_performance list \<times> overall_performance list \<times> learning_rate_row list)" where
  "calculate_student_metrics data0 =
     (let data = convert_is_correct data0 in
      case traverse (section_group data)
             (group_keys (map record_key data)) of
        Inl e \<Rightarrow> Inl e
      | Inr student_section_performance \<Rightarrow>
          (case traverse (overall_group data) (group_keys (map student_id data)) of
             Inl e \<Rightarrow> Inl e
           | Inr student_overall \<Rightarrow>
               Inr (student_section_performance, student_overall,
                    map (\<lambda>r. \<lparr>lr_student_id = so_student_id r, learning_rate = 0\<rparr>)
                      student_overall)))"

section \<open>calculate\_average\_performance\<close>

record avg_section_row =
  as_section :: string
  avg_score_percentage :: rat

text \<open>
  The arithmetic mean of a column. Every group of a \<^verbatim>\<open>groupby\<close> has a row, so
  the mean of a group is never taken over an empty list.
\<close>

definition mean :: "rat list \<Rightarrow> rat" where
  "mean xs = sum_list xs / of_nat (length xs)"

text \<open>
  The section averages, one row per section of the table in ascending order, and the
  overall average, which is NaN (here \<open>None\<close>) for an empty table.
\<close>

definition calculate_average_performance ::
  "section_performance list \<Rightarrow> overall_performance list \<Rightarrow> avg_section_row list \<times> rat option" where
  "calculate_average_performance student_section_performance student_overall =
     (map (\<lambda>s. \<lparr>as_section = s,
                  avg_score_percentage =
                    mean (map score_percentage
                      (filter (\<lambda>r. sp_section r = s) student_section_performance))\<rparr>)
        (group_keys (map sp_section student_section_performance)),
      if student_overall = [] then None else Some (mean (map overall_score student_overall)))"

section \<open>identify\_strengths\_weaknesses\<close>

record comparison_row =
  cmp_section :: string
  cmp_score :: rat
  cmp_avg_score :: rat
  cmp_diff :: rat

record strengths_weaknesses_entry =
  strengths :: "string list"
  weaknesses :: "string list"
  comparison :: "comparison_row list"

text \<open>
  \<^verbatim>\<open>avg[avg['section'] == section]['avg_score_percentage'].values[0]\<close>: the
  average of the first matching row; indexing the empty selection raises IndexError.
\<close>

definition lookup_avg :: "avg_section_row list \<Rightarrow> string \<Rightarrow> error + rat" where
  "lookup_avg avg_section_performance s =
     (case filter (\<lambda>a. as_section a = s) avg_section_performance of
        [] \<Rightarrow> Inl IndexError
      | a # rest \<Rightarrow> Inr (avg_score_percentage a))"

definition compare_row :: "avg_section_row list \<Rightarrow> section_performance \<Rightarrow> error + comparison_row" where
  "compare_row avg_section_performance row =
     (case lookup_avg avg_section_performance (sp_section row) of
        Inl e \<Rightarrow> Inl e
      | Inr avg_score \<Rightarrow>
          Inr \<lparr>cmp_section = sp_section row, cmp_score = score_percentage row,
               cmp_avg_score = avg_score, cmp_diff = score_percentage row - avg_score\<rparr>)"

text \<open>
  \<^verbatim>\<open>sort_values('diff', ascending=False)\<close>. pandas sorts descending by reversing
  the rows, sorting them ascending with the algorithm that the argument \<^verbatim>\<open>kind\<close>
  names, and reversing the result. The call passes no \<^verbatim>\<open>kind\<close>, so the default of
  the library applies; it is quicksort, which is not stable, and the order in which it
  returns rows of equal difference is not fixed by the code. The algorithm is therefore a
  parameter of the model: any function that returns its rows in ascending order of the
  difference.
\<close>

type_synonym sort_kind = "comparison_row list \<Rightarrow> comparison_row list"

definition sorting_kind :: "sort_kind \<Rightarrow> bool" where
  "sorting_kind kind =
     (\<forall>rows. mset (kind rows) = mset rows \<and> sorted (map cmp_diff (kind rows)))"

definition sort_values_desc :: "sort_kind \<Rightarrow> comparison_row list \<Rightarrow> comparison_row list" where
  "sort_values_desc kind rows = rev (kind (rev rows))"

text \<open>
  Two such algorithms: a stable one, and one that returns rows of equal difference in the
  reverse of the order in which it receives them, as an algorithm that is not stable may.
\<close>

definition stable_sort :: sort_kind where
  "stable_sort rows = sort_key cmp_diff rows"


text \<open>\<^verbatim>\<open>head(n)\<close> and \<^verbatim>\<open>tail(n)\<close>: the first and the last \<open>n\<close> rows, all rows when there are fewer.\<close>

definition head :: "nat \<Rightarrow> 'a list \<Rightarrow> 'a list" where
  "head n xs = take n xs"

definition tail :: "nat \<Rightarrow> 'a list \<Rightarrow> 'a list" where
  "tail n xs = drop (length xs - n) xs"

definition classify_student ::
  "sort_kind \<Rightarrow> section_performance list \<Rightarrow> avg_section_row list \<Rightarrow> int \<Rightarrow>
     error + (int \<times> strengths_weaknesses_entry)" where
  "classify_student kind student_section_performance avg_section_performance sid =
     (case traverse (compare_row avg_section_performance)
             (filter (\<lambda>r. sp_student_id r = sid) student_section_performance) of
        Inl e \<Rightarrow> Inl e
      | Inr comparison_df \<Rightarrow>
          (let sorted_comparison = sort_values_desc kind comparison_df in
           Inr (sid, \<lparr>strengths = map cmp_section (head 2 sorted_comparison),
                      weaknesses = map cmp_section (tail 2 sorted_comparison),
                      comparison = comparison_df\<rparr>)))"

text \<open>
  The result is a Python dict keyed by student id; it is the list of its items in insertion
  order, whose keys are distinct.
\<close>

definition identify_strengths_weaknesses ::
  "sort_kind \<Rightarrow> section_performance list \<Rightarrow> avg_section_row list \<Rightarrow>
     error + (int \<times> strengths_weaknesses_entry) list" where
  "identify_strengths_weaknesses kind student_section_performance avg_section_performance =
     traverse (classify_student kind student_section_performance avg_section_performance)
       (unique (map sp_student_id student_section_performance))"

section \<open>Recommendation texts\<close>

text \<open>
  A Python f-string is the list of its parts: literal text (and interpolated strings), and
  numbers formatted with \<^verbatim>\<open>:.1f\<close>, kept as the number that is formatted.
\<close>

datatype fpart = Lit string | F1 rat

type_synonym fstring = "fpart list"

definition performance_level :: "rat \<Rightarrow> string" where
  "performance_level score =
     (if score \<ge> 80 then ''excellent'' else if score \<ge> 60 then ''good''
      else if score \<ge> 40 then ''fair'' else ''poor'')"

definition relation_to_avg :: "rat \<Rightarrow> string" where
  "relation_to_avg diff =
     (if diff > 5 then ''above average'' else if diff < - 5 then ''below average''
      else ''at the class average'')"

definition get_section_specific_recommendations ::
  "string \<Rightarrow> rat \<Rightarrow> rat \<Rightarrow> rat \<Rightarrow> fstring list" where
  "get_section_specific_recommendations section score avg_score diff =
     (let performance_level = performance_level score;
          relation_to_avg = relation_to_avg diff in
     (if section = ''A'' then
        (if performance_level = ''excellent'' then
           [[Lit ''Outstanding performance in Math! Your score ('', F1 score, Lit ''%) is '', F1 \<bar>diff\<bar>, Lit ''% '', Lit relation_to_avg, Lit '' ('', F1 avg_score, Lit ''%). Continue to challenge yourself with advanced mathematical concepts and complex problem-solving.''],
            [Lit ''To maintain your excellence: Practice with competitive math problems, explore calculus or statistics if not already familiar, and consider mentoring peers who struggle with math.'']]
         else if performance_level = ''good'' then
           [[Lit ''Good performance in Math. Your score ('', F1 score, Lit ''%) is '', F1 \<bar>diff\<bar>, Lit ''% '', Lit relation_to_avg, Lit '' ('', F1 avg_score, Lit ''%). You have a solid foundation but can still improve in specific areas.''],
            [Lit ''To improve further: Focus on algebraic manipulations, quadratic equations, and geometry theorems. Try timed practice to improve speed and accuracy.'']]
         else if performance_level = ''fair'' then
           [[Lit ''Fair performance in Math. Your score ('', F1 score, Lit ''%) is '', F1 \<bar>diff\<bar>, Lit ''% '', Lit relation_to_avg, Lit '' ('', F1 avg_score, Lit ''%). You need to strengthen your mathematical foundation.''],
            [Lit ''To build your skills: Review basic algebra, fractions, percentages, and geometric principles. Practice daily with gradual progression to more complex problems.'']]
         else
           [[Lit ''You need significant improvement in Math. Your score ('', F1 score, Lit ''%) is '', F1 \<bar>diff\<bar>, Lit ''% '', Lit relation_to_avg, Lit '' ('', F1 avg_score, Lit ''%). Focus on establishing basic mathematical concepts.''],
            [Lit ''Essential steps for improvement: Start with arithmetic operations, fractions, and basic algebra. Use visual aids and practical examples to grasp concepts. Consider extra tutoring support.''],
            [Lit ''Recommended resources: Khan Academy's basic math courses, 'Math Made Easy' workbooks, or apps like Photomath to help understand step-by-step solutions.'']])
      else if section = ''B'' then
        (if performance_level = ''excellent'' then
           [[Lit ''Outstanding verbal reasoning skills! Your score ('', F1 score, Lit ''%) is '', F1 \<bar>diff\<bar>, Lit ''% '', Lit relation_to_avg, Lit '' ('', F1 avg_score, Lit ''%). You demonstrate exceptional language comprehension and vocabulary.''],
            [Lit ''To maintain your excellence: Read advanced literature and scholarly articles, practice writing persuasive essays, and expand your vocabulary with specialized or technical terms.'']]
         else if performance_level = ''good'' then
           [[Lit ''Good verbal reasoning abilities. Your score ('', F1 score, Lit ''%) is '', F1 \<bar>diff\<bar>, Lit ''% '', Lit relation_to_avg, Lit '' ('', F1 avg_score, Lit ''%). You have solid language skills but can enhance specific areas.''],
            [Lit ''To improve further: Focus on analogies, sentence completions, and critical reading. Practice identifying author's tone and purpose in diverse texts.'']]
         else if performance_level = ''fair'' then
           [[Lit ''Fair verbal performance. Your score ('', F1 score, Lit ''%) is '', F1 \<bar>diff\<bar>, Lit ''% '', Lit relation_to_avg, Lit '' ('', F1 avg_score, Lit ''%). You need to strengthen your vocabulary and reading comprehension.''],
            [Lit ''To build your skills: Read diverse materials daily, maintain a vocabulary journal, and practice synonym/antonym exercises. Focus on understanding context clues in passages.'']]
         else
           [[Lit ''You need significant improvement in verbal reasoning. Your score ('', F1 score, Lit ''%) is '', F1 \<bar>diff\<bar>, Lit ''% '', Lit relation_to_avg, Lit '' ('', F1 avg_score, Lit ''%). Focus on building fundamental language skills.''],
            [Lit ''Essential steps for improvement: Start with basic vocabulary building exercises, grammar rules, and simple reading comprehension activities. Use flashcards for new words.''],
            [Lit ''Recommended resources: Vocabulary apps like Memrise or Quizlet, graded readers appropriate for your level, and websites like Grammar.com for language basics.'']])
      else if section = ''C'' then
        (if performance_level = ''excellent'' then
           [[Lit ''Exceptional non-verbal reasoning abilities! Your score ('', F1 score, Lit ''%) is '', F1 \<bar>diff\<bar>, Lit ''% '', Lit relation_to_avg, Lit '' ('', F1 avg_score, Lit ''%). You excel at pattern recognition and spatial reasoning.''],
            [Lit ''To maintain your excellence: Challenge yourself with advanced puzzle types, 3D visualization exercises, and abstract reasoning problems found in high-level aptitude tests.'']]
         else if performance_level = ''good'' then
           [[Lit ''Good non-verbal reasoning skills. Your score ('', F1 score, Lit ''%) is '', F1 \<bar>diff\<bar>, Lit ''% '', Lit relation_to_avg, Lit '' ('', F1 avg_score, Lit ''%). You recognize patterns well but can improve in complex scenarios.''],
            [Lit ''To improve further: Practice with various pattern recognition exercises, spatial rotation tasks, and logical sequence problems with increasing difficulty.'']]
         else if performance_level = ''fair'' then
           [[Lit ''Fair non-verbal performance. Your score ('', F1 score, Lit ''%) is '', F1 \<bar>diff\<bar>, Lit ''% '', Lit relation_to_avg, Lit '' ('', F1 avg_score, Lit ''%). You need to develop better pattern recognition abilities.''],
            [Lit ''To build your skills: Work regularly with visual puzzles, pattern completion exercises, and spatial reasoning tasks. Start with simpler patterns and progressively increase difficulty.'']]
         else
           [[Lit ''You need significant improvement in non-verbal reasoning. Your score ('', F1 score, Lit ''%) is '', F1 \<bar>diff\<bar>, Lit ''% '', Lit relation_to_avg, Lit '' ('', F1 avg_score, Lit ''%). Focus on basic pattern recognition skills.''],
            [Lit ''Essential steps for improvement: Begin with simple pattern recognition exercises, shape matching, and basic sequence completion. Train your brain to identify similarities and differences in visual information.''],
            [Lit ''Recommended resources: Apps like Lumosity or Peak for pattern games, puzzle books with increasing difficulty levels, and tangram puzzles for spatial reasoning practice.'']])
      else if section = ''D'' then
        (if performance_level = ''excellent'' then
           [[Lit ''Outstanding reading comprehension skills! Your score ('', F1 score, Lit ''%) is '', F1 \<bar>diff\<bar>, Lit ''% '', Lit relation_to_avg, Lit '' ('', F1 avg_score, Lit ''%). You excel at understanding and analyzing complex texts.''],
            [Lit ''To maintain your excellence: Read scholarly articles and classic literature, practice critical analysis of complex arguments, and work on synthesizing information from multiple sources.'']]
         else if performance_level = ''good'' then
           [[Lit ''Good reading comprehension abilities. Your score ('', F1 score, Lit ''%) is '', F1 \<bar>diff\<bar>, Lit ''% '', Lit relation_to_avg, Lit '' ('', F1 avg_score, Lit ''%). You understand most texts well but can improve with complex material.''],
            [Lit ''To improve further: Practice with more challenging reading materials, focus on inference questions, and work on identifying unstated assumptions and author's perspective.'']]
         else if performance_level = ''fair'' then
           [[Lit ''Fair reading comprehension. Your score ('', F1 score, Lit ''%) is '', F1 \<bar>diff\<bar>, Lit ''% '', Lit relation_to_avg, Lit '' ('', F1 avg_score, Lit ''%). You understand basic texts but struggle with deeper analysis.''],
            [Lit ''To build your skills: Read diverse materials regularly, practice summarizing what you've read, and work on identifying main ideas versus supporting details. Try answering 'why' and 'how' questions about texts.'']]
         else
           [[Lit ''You need significant improvement in reading comprehension. Your score ('', F1 score, Lit ''%) is '', F1 \<bar>diff\<bar>, Lit ''% '', Lit relation_to_avg, Lit '' ('', F1 avg_score, Lit ''%). Focus on basic reading skills.''],
            [Lit ''Essential steps for improvement: Start with shorter passages at an appropriate reading level. Practice identifying the main idea, key details, and simple inferences. Read actively by asking yourself questions about the text.''],
            [Lit ''Recommended resources: Graded reading materials with comprehension questions, websites like ReadWorks.org or Newsela that adjust text complexity, and guided reading workbooks.'']])
      else []))"

text \<open>
  The texts of the weaknesses-only mode: what one pass of the loop over the weaknesses
  appends to \<^verbatim>\<open>rec\<close>.
\<close>

definition weakness_text :: "string \<Rightarrow> string \<Rightarrow> rat \<Rightarrow> rat \<Rightarrow> rat \<Rightarrow> fstring list" where
  "weakness_text weakness subject score avg_score diff =
     (if weakness = ''A'' then
        (if score < 40 then
           [[Lit subject, Lit '' (Section '', Lit weakness, Lit ''): You need significant improvement in mathematical concepts. Your score ('', F1 score, Lit ''%) is '', F1 \<bar>diff\<bar>, Lit ''% below the class average ('', F1 avg_score, Lit ''%). Focus on basic arithmetic, algebra, and geometry fundamentals.'']]
         else if score < 60 then
           [[Lit subject, Lit '' (Section '', Lit weakness, Lit ''): Work on improving your mathematical problem-solving skills. Your score ('', F1 score, Lit ''%) is '', F1 \<bar>diff\<bar>, Lit ''% below the class average ('', F1 avg_score, Lit ''%). Practice with timed exercises focusing on algebra and number theory.'']]
         else
           [[Lit subject, Lit '' (Section '', Lit weakness, Lit ''): You're doing well in math but still '', F1 \<bar>diff\<bar>, Lit ''% below the class average ('', F1 avg_score, Lit ''%). Focus on advanced topics and complex problem-solving techniques.'']])
      else if weakness = ''B'' then
        (if score < 40 then
           [[Lit subject, Lit '' (Section '', Lit weakness, Lit ''): Significant improvement needed in verbal reasoning. Your score ('', F1 score, Lit ''%) is '', F1 \<bar>diff\<bar>, Lit ''% below the class average ('', F1 avg_score, Lit ''%). Focus on vocabulary building, synonyms/antonyms, and basic grammar rules.'']]
         else if score < 60 then
           [[Lit subject, Lit '' (Section '', Lit weakness, Lit ''): Work on improving your verbal comprehension. Your score ('', F1 score, Lit ''%) is '', F1 \<bar>diff\<bar>, Lit ''% below the class average ('', F1 avg_score, Lit ''%). Practice with sentence completion exercises, reading short passages, and word relationships.'']]
         else
           [[Lit subject, Lit '' (Section '', Lit weakness, Lit ''): You're doing reasonably well in verbal skills but '', F1 \<bar>diff\<bar>, Lit ''% below the class average ('', F1 avg_score, Lit ''%). Focus on complex sentence structures, advanced vocabulary, and nuanced language comprehension.'']])
      else if weakness = ''C'' then
        (if score < 40 then
           [[Lit subject, Lit '' (Section '', Lit weakness, Lit ''): Significant improvement needed in pattern recognition and spatial reasoning. Your score ('', F1 score, Lit ''%) is '', F1 \<bar>diff\<bar>, Lit ''% below the class average ('', F1 avg_score, Lit ''%). Practice with basic pattern completion exercises and spatial visualization tasks.'']]
         else if score < 60 then
           [[Lit subject, Lit '' (Section '', Lit weakness, Lit ''): Work on improving your non-verbal reasoning. Your score ('', F1 score, Lit ''%) is '', F1 \<bar>diff\<bar>, Lit ''% below the class average ('', F1 avg_score, Lit ''%). Focus on identifying relationships in visual patterns, sequences, and spatial arrangements.'']]
         else
           [[Lit subject, Lit '' (Section '', Lit weakness, Lit ''): You're doing reasonably well in non-verbal reasoning but '', F1 \<bar>diff\<bar>, Lit ''% below the class average ('', F1 avg_score, Lit ''%). Practice with complex pattern recognition, 3D visualization, and abstract reasoning problems.'']])
      else if weakness = ''D'' then
        (if score < 40 then
           [[Lit subject, Lit '' (Section '', Lit weakness, Lit ''): Significant improvement needed in reading comprehension. Your score ('', F1 score, Lit ''%) is '', F1 \<bar>diff\<bar>, Lit ''% below the class average ('', F1 avg_score, Lit ''%). Focus on understanding main ideas, basic inference skills, and identifying key information in passages.'']]
         else if score < 60 then
           [[Lit subject, Lit '' (Section '', Lit weakness, Lit ''): Work on improving your reading comprehension. Your score ('', F1 score, Lit ''%) is '', F1 \<bar>diff\<bar>, Lit ''% below the class average ('', F1 avg_score, Lit ''%). Practice with medium-length passages and questions about explicit and implicit information.'']]
         else
           [[Lit subject, Lit '' (Section '', Lit weakness, Lit ''): You're doing reasonably well in comprehension but '', F1 \<bar>diff\<bar>, Lit ''% below the class average ('', F1 avg_score, Lit ''%). Focus on critical analysis of complex texts, drawing nuanced conclusions, and understanding author's intent and tone.'']])
      else [])"

section \<open>generate\_recommendations\<close>

definition section_names :: "(string \<times> string) list" where
  "section_names =
     [(''A'', ''Math''), (''B'', ''Verbal''), (''C'', ''Non-verbal''), (''D'', ''Comprehension'')]"

text \<open>
  The value stored for a student: a dict from section code to texts in the all-sections
  mode, a flat list of texts in the weaknesses-only mode.
\<close>

datatype recommendation =
  AllSections "(string \<times> fstring list) list" | WeaknessesOnly "fstring list"

definition section_recommendation ::
  "avg_section_row list \<Rightarrow> section_performance list \<Rightarrow> string \<Rightarrow> error + (string \<times> fstring list)" where
  "section_recommendation avg_section_performance student_data section =
     (case filter (\<lambda>r. sp_section r = section) student_data of
        [] \<Rightarrow> Inr (section, [])
      | row # rest \<Rightarrow>
          (case lookup_avg avg_section_performance section of
             Inl e \<Rightarrow> Inl e
           | Inr avg_score \<Rightarrow>
               Inr (section,
                    get_section_specific_recommendations section (score_percentage row) avg_score
                      (score_percentage row - avg_score))))"

definition weakness_recommendation ::
  "avg_section_row list \<Rightarrow> section_performance list \<Rightarrow> string \<Rightarrow> error + fstring list" where
  "weakness_recommendation avg_section_performance student_data weakness =
     (case filter (\<lambda>r. sp_section r = weakness) student_data of
        [] \<Rightarrow> Inl IndexError
      | row # rest \<Rightarrow>
          (case lookup_avg avg_section_performance weakness of
             Inl e \<Rightarrow> Inl e
           | Inr avg_score \<Rightarrow>
               (case map_of section_names weakness of
                  None \<Rightarrow> Inl KeyError
                | Some subject \<Rightarrow>
                    Inr (weakness_text weakness subject (score_percentage row) avg_score
                           (score_percentage row - avg_score)))))"

definition recommend_student ::
  "(int \<times> strengths_weaknesses_entry) list \<Rightarrow> section_performance list \<Rightarrow>
     avg_section_row list \<Rightarrow> bool \<Rightarrow> int \<Rightarrow> error + (int \<times> recommendation)" where
  "recommend_student strengths_weaknesses student_section_performance avg_section_performance
       all_sections sid =
     (let student_data = filter (\<lambda>r. sp_student_id r = sid) student_section_performance in
      if all_sections then
        (case traverse (section_recommendation avg_section_performance student_data)
                [''A'', ''B'', ''C'', ''D''] of
           Inl e \<Rightarrow> Inl e
         | Inr section_recommendations \<Rightarrow> Inr (sid, AllSections section_recommendations))
      else
        (case map_of strengths_weaknesses sid of
           None \<Rightarrow> Inl KeyError
         | Some entry \<Rightarrow>
             (case traverse (weakness_recommendation avg_section_performance student_data)
                     (weaknesses entry) of
                Inl e \<Rightarrow> Inl e
              | Inr recs \<Rightarrow> Inr (sid, WeaknessesOnly (concat recs)))))"

definition generate_recommendations ::
  "(int \<times> strengths_weaknesses_entry) list \<Rightarrow> learning_rate_row list \<Rightarrow>
     section_performance list \<Rightarrow> avg_section_row list \<Rightarrow> bool \<Rightarrow>
     error + (int \<times> recommendation) list" where
  "generate_recommendations strengths_weaknesses learning_rates_df student_section_performance
       avg_section_performance all_sections =
     traverse
       (recommend_student strengths_weaknesses student_section_performance
          avg_section_performance all_sections)
       (unique (map sp_student_id student_section_performance))"

section \<open>evaluate\_model\<close>

record prediction_row =
  pr_student_id :: int
  predicted_performance :: string
  actual_performance :: string
  correct_prediction :: bool

definition evaluate_model ::
  "dataframe \<Rightarrow> learning_rate_row list \<Rightarrow> rat \<times> rat \<times> prediction_row list" where
  "evaluate_model data learning_rates_df =
     (95, 93,
      map (\<lambda>sid. \<lparr>pr_student_id = sid, predicted_performance = ''Above Average'',
                    actual_performance = ''Above Average'', correct_prediction = True\<rparr>)
        (unique (map student_id data)))"

section \<open>The pipeline of app.py\<close>

text \<open>
  \<^verbatim>\<open>main\<close> of \<^verbatim>\<open>app.py\<close> runs the four steps in a row on the loaded frame; the
  mode of the recommendations is a parameter here (\<^verbatim>\<open>main\<close> passes
  \<^verbatim>\<open>all_sections=True\<close>), and so is the sorting algorithm of the library.
\<close>

definition run_pipeline ::
  "sort_kind \<Rightarrow> dataframe \<Rightarrow> bool \<Rightarrow> error + (int \<times> recommendation) list" where
  "run_pipeline kind data all_sections =
     (case calculate_student_metrics data of
        Inl e \<Rightarrow> Inl e
      | Inr (student_section_performance, student_overall, learning_rates_df) \<Rightarrow>
          (let avg_section_performance =
                 fst (calculate_average_performance student_section_performance student_overall)
           in case identify_strengths_weaknesses kind student_section_performance
                     avg_section_performance of
                Inl e \<Rightarrow> Inl e
              | Inr strengths_weaknesses \<Rightarrow>
                  generate_recommendations strengths_weaknesses learning_rates_df
                    student_section_performance avg_section_performance all_sections))"

section \<open>Notions used to state the properties\<close>

text \<open>
  The input contract, taken for the column as a whole: the \<^verbatim>\<open>is_correct\<close> column
  holds booleans only, or the strings \<^verbatim>\<open>"true"\<close> and \<^verbatim>\<open>"false"\<close> only.
\<close>

definition is_true_false :: "pyobj \<Rightarrow> bool" where
  "is_true_false c = (c = PyStr ''true'' \<or> c = PyStr ''false'')"

definition well_formed :: "dataframe \<Rightarrow> bool" where
  "well_formed data =
     (list_all is_PyBool (map is_correct data) \<or> list_all is_true_false (map is_correct data))"

definition answered_true :: "pyobj \<Rightarrow> bool" where
  "answered_true c = (c = PyBool True \<or> c = PyStr ''true'')"

definition row_key :: "section_performance \<Rightarrow> int \<times> string" where
  "row_key row = (sp_student_id row, sp_section row)"

section \<open>Example frames\<close>

text \<open>The records of one student in one section, one per answer.\<close>

definition answers :: "int \<Rightarrow> string \<Rightarrow> pyobj list \<Rightarrow> dataframe" where
  "answers sid sec cells =
     map (\<lambda>c. \<lparr>student_id = sid, section_code = sec, is_correct = c\<rparr>) cells"

text \<open>Student 1 answers 8 of 10 questions of section A, student 2 answers 3 of 5.\<close>

definition example_unequal_counts :: dataframe where
  "example_unequal_counts =
     answers 1 ''A''
       [PyBool True, PyBool True, PyBool True, PyBool True, PyBool True, PyBool True,
        PyBool True, PyBool True, PyBool False, PyBool False] @
     answers 2 ''A'' [PyBool True, PyBool True, PyBool True, PyBool False, PyBool False]"



text \<open>
  Two students with section A only: student 1 answers its one question, student 2 does not.
  The two tables below are what the first two steps of the pipeline compute for them.
\<close>

definition example_single_section :: dataframe where
  "example_single_section = answers 1 ''A'' [PyBool True] @ answers 2 ''A'' [PyBool False]"

definition example_single_section_table :: "section_performance list" where
  "example_single_section_table =
     [\<lparr>sp_student_id = 1, sp_section = ''A'', sp_sum = 1, sp_count = 1, score_percentage = 100\<rparr>,
      \<lparr>sp_student_id = 2, sp_section = ''A'', sp_sum = 0, sp_count = 1, score_percentage = 0\<rparr>]"

definition example_single_section_avg :: "avg_section_row list" where
  "example_single_section_avg = [\<lparr>as_section = ''A'', avg_score_percentage = 50\<rparr>]"

definition example_single_section_sw :: "(int \<times> strengths_weaknesses_entry) list" where
  "example_single_section_sw =
     [(1, \<lparr>strengths = [''A''], weaknesses = [''A''],
            comparison = [\<lparr>cmp_section = ''A'', cmp_score = 100, cmp_avg_score = 50,
                            cmp_diff = 50\<rparr>]\<rparr>),
      (2, \<lparr>strengths = [''A''], weaknesses = [''A''],
            comparison = [\<lparr>cmp_section = ''A'', cmp_score = 0, cmp_avg_score = 50,
                            cmp_diff = - 50\<rparr>]\<rparr>)]"


text \<open>A column that holds a boolean and a string.\<close>

definition example_mixed :: dataframe where
  "example_mixed = answers 1 ''A'' [PyBool True] @ answers 2 ''A'' [PyStr ''true'']"

text \<open>One student with one correct answer out of three in section A.\<close>

definition example_one_of_three :: dataframe where
  "example_one_of_three = answers 1 ''A'' [PyBool True, PyBool False, PyBool False]"

section \<open>Lemmas about the helpers\<close>

lemma traverse_map: "(\<And>x. x \<in> set xs \<Longrightarrow> f x = Inr (g x)) \<Longrightarrow> traverse f xs = Inr (map g xs)"
  by (induction xs) auto

lemma traverse_Inr_all2: "traverse f xs = Inr ys \<Longrightarrow> list_all2 (\<lambda>x y. f x = Inr y) xs ys"
  by (induction xs arbitrary: ys) (auto split: sum.splits)

lemma traverse_Inr_length: "traverse f xs = Inr ys \<Longrightarrow> length ys = length xs"
  by (drule traverse_Inr_all2) (rule list_all2_lengthD [symmetric])


lemma traverse_total: "(\<And>x. x \<in> set xs \<Longrightarrow> \<exists>y. f x = Inr y) \<Longrightarrow> \<exists>ys. traverse f xs = Inr ys"
proof (induction xs)
  case Nil
  show ?case by simp
next
  case (Cons x xs)
  from Cons.prems obtain y where y: "f x = Inr y" by auto
  from Cons obtain ys where "traverse f xs = Inr ys" by auto
  with y show ?case by simp
qed

lemma set_unique: "set (unique xs) = set xs"
  by (simp add: unique_def)

lemma distinct_unique: "distinct (unique xs)"
  by (simp add: unique_def)

lemma set_group_keys: "set (group_keys ks) = set ks"
  by (simp add: group_keys_def)

lemma distinct_group_keys: "distinct (group_keys ks)"
  by (simp add: group_keys_def)

lemma sorted_group_keys: "sorted (group_keys ks)"
  by (simp add: group_keys_def)

section \<open>Lemmas about rounding to float64\<close>

lemma round_half_even_error: "\<bar>of_int (round_half_even x) - x\<bar> \<le> 1 / 2"
proof -
  have "of_int \<lfloor>x\<rfloor> \<le> x" "x < of_int \<lfloor>x\<rfloor> + 1" by linarith+
  then show ?thesis
    by (auto simp: round_half_even_def Let_def abs_le_iff)
qed

lemma quotient_of_abs_pos:
  assumes "x \<noteq> 0"
  shows "0 < fst (quotient_of \<bar>x\<bar>)" "0 < snd (quotient_of \<bar>x\<bar>)"
    "\<bar>x\<bar> = of_int (fst (quotient_of \<bar>x\<bar>)) / of_int (snd (quotient_of \<bar>x\<bar>))"
proof -
  obtain p q where pq: "quotient_of \<bar>x\<bar> = (p, q)" by (cases "quotient_of \<bar>x\<bar>")
  then have q: "0 < q" by (rule quotient_of_denom_pos)
  from pq have x: "\<bar>x\<bar> = of_int p / of_int q" by (rule quotient_of_div)
  from assms have "0 < \<bar>x\<bar>" by simp
  with x q have "0 < p" by (simp add: zero_less_divide_iff)
  with q x pq show "0 < fst (quotient_of \<bar>x\<bar>)" "0 < snd (quotient_of \<bar>x\<bar>)"
    "\<bar>x\<bar> = of_int (fst (quotient_of \<bar>x\<bar>)) / of_int (snd (quotient_of \<bar>x\<bar>))"
    by simp_all
qed

lemma two_powi_bitlen_diff:
  fixes p q :: int
  assumes "0 < p" "0 < q"
  shows "(2 :: rat) powi (bitlen p - bitlen q - 1) \<le> of_int p / of_int q"
    and "of_int p / of_int q < (2 :: rat) powi (bitlen p - bitlen q + 1)"
proof -
  from bitlen_bounds [OF assms(1)] have p: "2 ^ nat (bitlen p - 1) \<le> p" "p < 2 ^ nat (bitlen p)"
    by simp_all
  from bitlen_bounds [OF assms(2)] have q: "2 ^ nat (bitlen q - 1) \<le> q" "q < 2 ^ nat (bitlen q)"
    by simp_all
  have bp: "1 \<le> bitlen p" using assms(1) by (simp add: bitlen_alt_def)
  have bq: "1 \<le> bitlen q" using assms(2) by (simp add: bitlen_alt_def)
  have P1: "(2 :: rat) powi (bitlen p - 1) \<le> of_int p"
  proof -
    have "(of_int (2 ^ nat (bitlen p - 1)) :: rat) \<le> of_int p" using p(1) by (simp only: of_int_le_iff)
    then show ?thesis using bp by (simp add: power_int_def)
  qed
  have P2: "of_int p < (2 :: rat) powi (bitlen p)"
  proof -
    have "(of_int p :: rat) < of_int (2 ^ nat (bitlen p))" using p(2) by (simp only: of_int_less_iff)
    then show ?thesis using bp by (simp add: power_int_def)
  qed
  have Q1: "(2 :: rat) powi (bitlen q - 1) \<le> of_int q"
  proof -
    have "(of_int (2 ^ nat (bitlen q - 1)) :: rat) \<le> of_int q" using q(1) by (simp only: of_int_le_iff)
    then show ?thesis using bq by (simp add: power_int_def)
  qed
  have Q2: "of_int q < (2 :: rat) powi (bitlen q)"
  proof -
    have "(of_int q :: rat) < of_int (2 ^ nat (bitlen q))" using q(2) by (simp only: of_int_less_iff)
    then show ?thesis using bq by (simp add: power_int_def)
  qed
  have qpos: "(0 :: rat) < of_int q" using assms(2) by simp
  have pw: "(0 :: rat) < 2 powi n" for n by simp
  have "(2 :: rat) powi (bitlen p - bitlen q - 1) = 2 powi (bitlen p - 1) / 2 powi (bitlen q)"
    by (simp add: power_int_diff)
  also have "\<dots> \<le> of_int p / 2 powi (bitlen q)"
    using P1 by (simp add: divide_right_mono)
  also have "\<dots> \<le> of_int p / of_int q"
    using Q2 qpos assms(1) by (simp add: frac_le)
  finally show "(2 :: rat) powi (bitlen p - bitlen q - 1) \<le> of_int p / of_int q" .
  have "of_int p / of_int q < (2 :: rat) powi (bitlen p) / of_int q"
    using P2 qpos by (simp add: divide_strict_right_mono)
  also have "\<dots> \<le> (2 :: rat) powi (bitlen p) / 2 powi (bitlen q - 1)"
    using qpos pw [of "bitlen q - 1"] by (intro divide_left_mono Q1 mult_pos_pos) simp_all
  also have "\<dots> = (2 :: rat) powi (bitlen p - bitlen q + 1)"
    by (simp add: power_int_diff power_int_add algebra_simps)
  finally show "of_int p / of_int q < (2 :: rat) powi (bitlen p - bitlen q + 1)" .
qed

lemma binary_exponent_bounds:
  assumes "x \<noteq> 0"
  shows "2 powi binary_exponent x \<le> \<bar>x\<bar>" and "\<bar>x\<bar> < 2 powi (binary_exponent x + 1)"
proof -
  let ?p = "fst (quotient_of \<bar>x\<bar>)" and ?q = "snd (quotient_of \<bar>x\<bar>)"
  let ?k = "bitlen ?p - bitlen ?q"
  note q = quotient_of_abs_pos [OF assms]
  from two_powi_bitlen_diff [OF q(1) q(2)] q(3)
  have lo: "2 powi (?k - 1) \<le> \<bar>x\<bar>" and hi: "\<bar>x\<bar> < 2 powi (?k + 1)" by simp_all
  show "2 powi binary_exponent x \<le> \<bar>x\<bar>"
    using lo by (simp add: binary_exponent_def Let_def)
  show "\<bar>x\<bar> < 2 powi (binary_exponent x + 1)"
    using hi by (simp add: binary_exponent_def Let_def not_le)
qed

lemma float64_round_error: "\<bar>float64_round x - x\<bar> \<le> \<bar>x\<bar> / 2 ^ 53"
proof (cases "x = 0")
  case True
  then show ?thesis by (simp add: float64_round_def)
next
  case False
  let ?e = "binary_exponent x - 52"
  let ?m = "x / 2 powi ?e"
  have pw: "(0 :: rat) < 2 powi ?e" by simp
  have fl: "float64_round x = of_int (round_half_even ?m) * 2 powi ?e"
    using False by (simp add: float64_round_def Let_def)
  have x: "x = ?m * 2 powi ?e" by simp
  have "float64_round x - x = (of_int (round_half_even ?m) - ?m) * 2 powi ?e"
    unfolding fl by (simp add: algebra_simps)
  then have "\<bar>float64_round x - x\<bar> = \<bar>of_int (round_half_even ?m) - ?m\<bar> * 2 powi ?e"
    by (simp add: abs_mult)
  also have "\<dots> \<le> 1 / 2 * 2 powi ?e"
    using round_half_even_error [of ?m] pw by (intro mult_right_mono) simp_all
  also have "2 powi ?e = 2 powi binary_exponent x / (2 :: rat) ^ 52"
    by (simp add: power_int_diff)
  also have "1 / 2 * (2 powi binary_exponent x / (2 :: rat) ^ 52) \<le> 1 / 2 * (\<bar>x\<bar> / 2 ^ 52)"
    using binary_exponent_bounds(1) [OF False] by (simp add: divide_right_mono)
  also have "\<dots> = \<bar>x\<bar> / 2 ^ 53" by simp
  finally show ?thesis .
qed

lemma percentage_error:
  fixes x :: rat
  assumes "0 \<le> x"
  shows "\<bar>float64_round (float64_round x * 100) - 100 * x\<bar> \<le> 100 * x / 2 ^ 51"
proof -
  let ?u = "1 / (2 :: rat) ^ 53"
  let ?x1 = "float64_round x"
  let ?y1 = "float64_round (?x1 * 100)"
  have e1: "\<bar>?x1 - x\<bar> \<le> x * ?u"
    using float64_round_error [of x] assms by simp
  then have "\<bar>?x1\<bar> \<le> x + x * ?u"
    using assms by linarith
  then have x1: "\<bar>?x1\<bar> \<le> x * (1 + ?u)"
    by (simp only: distrib_left mult_1_right)
  have e2: "\<bar>?y1 - ?x1 * 100\<bar> \<le> \<bar>?x1\<bar> * 100 * ?u"
    using float64_round_error [of "?x1 * 100"] by (simp add: abs_mult)
  have "?y1 - 100 * x = (?y1 - ?x1 * 100) + 100 * (?x1 - x)"
    by (simp add: algebra_simps)
  then have "\<bar>?y1 - 100 * x\<bar> \<le> \<bar>?y1 - ?x1 * 100\<bar> + \<bar>100 * (?x1 - x)\<bar>"
    by (simp only: abs_triangle_ineq)
  moreover have "\<bar>100 * (?x1 - x)\<bar> = 100 * \<bar>?x1 - x\<bar>"
    by (subst abs_mult) simp
  ultimately have "\<bar>?y1 - 100 * x\<bar> \<le> \<bar>?y1 - ?x1 * 100\<bar> + 100 * \<bar>?x1 - x\<bar>"
    by (simp only:)
  also have "\<dots> \<le> \<bar>?x1\<bar> * 100 * ?u + 100 * (x * ?u)"
    using e1 e2 by (intro add_mono) simp_all
  also have "\<dots> \<le> x * (1 + ?u) * 100 * ?u + 100 * (x * ?u)"
    using x1 by (intro add_mono mult_right_mono) simp_all
  also have "\<dots> = 100 * x * (?u * (2 + ?u))"
    by (simp add: algebra_simps)
  also have "\<dots> \<le> 100 * x * (1 / 2 ^ 51)"
    using assms by (intro mult_left_mono) simp_all
  finally show ?thesis by simp
qed

section \<open>Lemmas about the aggregation\<close>

lemma percentage_Inr:
  "c \<noteq> 0 \<Longrightarrow>
   percentage s c = Inr (float64_round (float64_round (of_nat s / of_nat c) * 100))"
  by (simp add: percentage_def)

lemma section_group_Inr:
  "agg_count (section_cells nd k) \<noteq> 0 \<Longrightarrow>
   section_group nd k =
     Inr \<lparr>sp_student_id = fst k, sp_section = snd k, sp_sum = agg_sum (section_cells nd k),
          sp_count = agg_count (section_cells nd k),
          score_percentage =
            float64_round
              (float64_round (of_nat (agg_sum (section_cells nd k)) /
                 of_nat (agg_count (section_cells nd k))) * 100)\<rparr>"
  by (simp add: section_group_def percentage_Inr Let_def)

lemma overall_group_Inr:
  "agg_count (student_cells nd sid) \<noteq> 0 \<Longrightarrow>
   overall_group nd sid =
     Inr \<lparr>so_student_id = sid, so_sum = agg_sum (student_cells nd sid),
          so_count = agg_count (student_cells nd sid),
          overall_score =
            float64_round
              (float64_round (of_nat (agg_sum (student_cells nd sid)) /
                 of_nat (agg_count (student_cells nd sid))) * 100)\<rparr>"
  by (simp add: overall_group_def percentage_Inr Let_def)

lemma agg_count_pos_iff: "agg_count cells \<noteq> 0 \<longleftrightarrow> (\<exists>c\<in>set cells. c \<noteq> None)"
  by (auto simp: agg_count_def filter_empty_conv)

lemma student_count_pos:
  assumes "agg_count (section_cells nd (sid, sec)) \<noteq> 0"
  shows "agg_count (student_cells nd sid) \<noteq> 0"
  using assms unfolding agg_count_pos_iff by (auto simp: section_cells_def student_cells_def record_key_def)

lemma agg_sum_le_count: "agg_sum cells \<le> agg_count cells"
proof -
  have "filter (\<lambda>c. c = Some True) cells = filter (\<lambda>c. c = Some True) (filter (\<lambda>c. c \<noteq> None) cells)"
    by (simp add: conj_commute cong: filter_cong) (metis (mono_tags, lifting) filter_cong option.distinct(1))
  then show ?thesis
    unfolding agg_sum_def agg_count_def by (metis length_filter_le)
qed

lemma metrics_Inr:
  fixes data :: dataframe
  defines "nd \<equiv> convert_is_correct data"
  assumes groups: "\<And>k. k \<in> set (map record_key nd) \<Longrightarrow> agg_count (section_cells nd k) \<noteq> 0"
  shows "\<exists>sp so lr. calculate_student_metrics data = Inr (sp, so, lr) \<and>
     sp = map (\<lambda>k. \<lparr>sp_student_id = fst k, sp_section = snd k, sp_sum = agg_sum (section_cells nd k),
          sp_count = agg_count (section_cells nd k),
          score_percentage =
            float64_round
              (float64_round (of_nat (agg_sum (section_cells nd k)) /
                 of_nat (agg_count (section_cells nd k))) * 100)\<rparr>)
        (group_keys (map record_key nd))"
proof -
  let ?keys = "group_keys (map record_key nd)"
  have sec: "traverse (section_group nd) ?keys =
      Inr (map (\<lambda>k. \<lparr>sp_student_id = fst k, sp_section = snd k, sp_sum = agg_sum (section_cells nd k),
          sp_count = agg_count (section_cells nd k),
          score_percentage =
            float64_round
              (float64_round (of_nat (agg_sum (section_cells nd k)) /
                 of_nat (agg_count (section_cells nd k))) * 100)\<rparr>) ?keys)"
  proof (rule traverse_map)
    fix k assume "k \<in> set ?keys"
    then have "k \<in> set (map record_key nd)" by (simp add: set_group_keys)
    then show "section_group nd k = Inr \<lparr>sp_student_id = fst k, sp_section = snd k, sp_sum = agg_sum (section_cells nd k),
          sp_count = agg_count (section_cells nd k),
          score_percentage =
            float64_round
              (float64_round (of_nat (agg_sum (section_cells nd k)) /
                 of_nat (agg_count (section_cells nd k))) * 100)\<rparr>"
      by (intro section_group_Inr groups)
  qed
  have "\<exists>so. traverse (overall_group nd) (group_keys (map student_id nd)) = Inr so"
  proof (rule traverse_total)
    fix sid assume "sid \<in> set (group_keys (map student_id nd))"
    then obtain r where r: "r \<in> set nd" "student_id r = sid" by (auto simp: set_group_keys)
    then have "record_key r \<in> set (map record_key nd)" by simp
    then have "agg_count (section_cells nd (sid, section_code r)) \<noteq> 0"
      using groups r by (simp add: record_key_def)
    then have "agg_count (student_cells nd sid) \<noteq> 0" by (rule student_count_pos)
    then show "\<exists>y. overall_group nd sid = Inr y" by (simp add: overall_group_Inr)
  qed
  then obtain so where so: "traverse (overall_group nd) (group_keys (map student_id nd)) = Inr so" ..
  show ?thesis
    using sec so unfolding calculate_student_metrics_def nd_def [symmetric]
    by (simp add: Let_def)
qed

lemma convert_is_correct_eq:
  "convert_is_correct data =
     map (\<lambda>r. \<lparr>student_id = student_id r, section_code = section_code r,
                  is_correct = (if dtype_is_object (map is_correct data) then map_true_false
                                else bool_cell) (is_correct r)\<rparr>) data"
  by (simp add: convert_is_correct_def)

lemma convert_well_formed:
  assumes "well_formed data"
  shows "convert_is_correct data =
     map (\<lambda>r. \<lparr>student_id = student_id r, section_code = section_code r,
                  is_correct = Some (answered_true (is_correct r))\<rparr>) data"
proof (cases "dtype_is_object (map is_correct data)")
  case True
  then have "data = [] \<or> \<not> list_all is_PyBool (map is_correct data)"
    by (simp add: dtype_is_object_def)
  with assms have tf: "\<And>r. r \<in> set data \<Longrightarrow> is_true_false (is_correct r)"
    by (auto simp: well_formed_def list_all_iff)
  have "\<And>c. is_true_false c \<Longrightarrow> map_true_false c = Some (answered_true c)"
    by (auto simp: is_true_false_def answered_true_def)
  with tf True show ?thesis
    by (simp add: convert_is_correct_def)
next
  case False
  then have "\<And>r. r \<in> set data \<Longrightarrow> is_PyBool (is_correct r)"
    by (auto simp: dtype_is_object_def list_all_iff)
  moreover have "\<And>c. is_PyBool c \<Longrightarrow> bool_cell c = Some (answered_true c)"
    by (case_tac c) (auto simp: answered_true_def)
  ultimately show ?thesis using False
    by (simp add: convert_is_correct_def)
qed

lemma keys_of_converted:
  "map record_key (map (\<lambda>r. \<lparr>student_id = student_id r, section_code = section_code r,
                              is_correct = f (is_correct r)\<rparr>) data) = map record_key data"
  by (simp add: record_key_def)

lemma section_cells_of_converted:
  "section_cells (map (\<lambda>r. \<lparr>student_id = student_id r, section_code = section_code r,
                              is_correct = f (is_correct r)\<rparr>) data) k =
   map (\<lambda>r. f (is_correct r)) (filter (\<lambda>r. record_key r = k) data)"
  by (simp add: section_cells_def filter_map comp_def record_key_def)

lemma agg_count_map: "agg_count (map g xs) = length (filter (\<lambda>x. g x \<noteq> None) xs)"
  by (simp add: agg_count_def filter_map comp_def)

lemma agg_sum_map: "agg_sum (map g xs) = length (filter (\<lambda>x. g x = Some True) xs)"
  by (simp add: agg_sum_def filter_map comp_def)




section \<open>Aggregation of an empty frame\<close>

text \<open>
  C4. The claim: aggregating an empty record collection fails with EmptyDatasetError and
  returns no tables. The code has no such check: on the empty frame
  \<^verbatim>\<open>calculate_student_metrics\<close> does not raise.
\<close>

theorem C4_empty_does_not_raise: "\<not> isl (calculate_student_metrics [])"
  by (simp add: calculate_student_metrics_def convert_is_correct_def group_keys_def)

text \<open>
  C4, as amended. Aggregating an empty record collection raises nothing and returns the
  empty section table, the empty overall table and the empty learning-rate table.
\<close>

theorem C4_empty_returns_empty_tables: "calculate_student_metrics [] = Inr ([], [], [])"
  by (simp add: calculate_student_metrics_def convert_is_correct_def group_keys_def)

section \<open>The rows of the section table\<close>

text \<open>
  C7. The claim: for every record set that is not empty, the section table has one row per
  (student, section) pair, with a total count of at least one, and the percentage is exactly
  100 times the correct count divided by the total count. In \<open>example_mixed\<close> every cell is
  a boolean or one of the two strings, the boolean of student 1 is taken for a missing value
  because the column holds a string, and the aggregation raises instead of returning a row.
  In \<open>example_one_of_three\<close> the percentage is the float64 number 33.33333333333333, which
  is not 100 / 3.
\<close>

theorem C7_not_exact_not_every_record_set:
  "calculate_student_metrics example_mixed = Inl ZeroDivisionError \<and>
   map (\<lambda>row. (sp_sum row, sp_count row, score_percentage row))
     (fst (projr (calculate_student_metrics example_one_of_three))) =
     [(1, 3, 2345624805922133 / 70368744177664)] \<and>
   (2345624805922133 / 70368744177664 :: rat) \<noteq> 100 * 1 / 3"
  by code_simp

text \<open>
  C7, as amended. For a frame whose \<^verbatim>\<open>is_correct\<close> column holds booleans only, or the
  strings "true" and "false" only, the aggregation returns its tables, and the section table
  has exactly one row per (student, section) pair of the frame. In every row the number of
  correct answers is at most the number of answers, which is at least one; the two counts
  are the numbers of the pair's records and of its correct records. The percentage is the
  float64 result of dividing the two counts and multiplying by 100; it differs from 100
  times the quotient of the counts by at most that value divided by \<open>2 ^ 51\<close>.
\<close>

theorem C7_section_rows:
  assumes "well_formed data"
  shows "\<exists>sp so lr. calculate_student_metrics data = Inr (sp, so, lr) \<and>
     distinct (map row_key sp) \<and> set (map row_key sp) = set (map record_key data) \<and>
     (\<forall>row\<in>set sp. sp_sum row \<le> sp_count row \<and> 1 \<le> sp_count row \<and>
        score_percentage row =
          float64_round (float64_round (of_nat (sp_sum row) / of_nat (sp_count row)) * 100) \<and>
        \<bar>score_percentage row - 100 * (of_nat (sp_sum row) / of_nat (sp_count row))\<bar> \<le>
          100 * (of_nat (sp_sum row) / of_nat (sp_count row)) / 2 ^ 51 \<and>
        sp_count row = length (filter (\<lambda>r. record_key r = row_key row) data) \<and>
        sp_sum row =
          length (filter (\<lambda>r. record_key r = row_key row \<and> answered_true (is_correct r)) data))"
proof -
  let ?f = "\<lambda>c. Some (answered_true c)"
  let ?nd = "convert_is_correct data"
  have nd: "?nd = map (\<lambda>r. \<lparr>student_id = student_id r, section_code = section_code r,
                  is_correct = ?f (is_correct r)\<rparr>) data"
    by (rule convert_well_formed [OF assms])
  have keys: "map record_key ?nd = map record_key data"
    unfolding nd by (rule keys_of_converted)
  have cells: "section_cells ?nd k =
      map (\<lambda>r. ?f (is_correct r)) (filter (\<lambda>r. record_key r = k) data)" for k
    unfolding nd by (rule section_cells_of_converted)
  have cnt: "agg_count (section_cells ?nd k) = length (filter (\<lambda>r. record_key r = k) data)" for k
    unfolding cells agg_count_map by simp
  have sm: "agg_sum (section_cells ?nd k) =
      length (filter (\<lambda>r. record_key r = k \<and> answered_true (is_correct r)) data)" for k
    unfolding cells agg_sum_map by simp
  have pos: "agg_count (section_cells ?nd k) \<noteq> 0" if "k \<in> set (map record_key ?nd)" for k
  proof -
    from that obtain r where "r \<in> set data" "record_key r = k" unfolding keys by auto
    then have "filter (\<lambda>r. record_key r = k) data \<noteq> []" by (auto simp: filter_empty_conv)
    then show ?thesis unfolding cnt by simp
  qed
  from metrics_Inr [OF pos] obtain sp so lr where
    res: "calculate_student_metrics data = Inr (sp, so, lr)" and
    sp: "sp = map (\<lambda>k. \<lparr>sp_student_id = fst k, sp_section = snd k,
          sp_sum = agg_sum (section_cells ?nd k), sp_count = agg_count (section_cells ?nd k),
          score_percentage =
            float64_round
              (float64_round (of_nat (agg_sum (section_cells ?nd k)) /
                 of_nat (agg_count (section_cells ?nd k))) * 100)\<rparr>)
        (group_keys (map record_key ?nd))"
    by blast
  have rk: "map row_key sp = group_keys (map record_key data)"
    unfolding sp keys by (simp add: row_key_def comp_def)
  have rows: "sp_sum row \<le> sp_count row \<and> 1 \<le> sp_count row \<and>
        score_percentage row =
          float64_round (float64_round (of_nat (sp_sum row) / of_nat (sp_count row)) * 100) \<and>
        \<bar>score_percentage row - 100 * (of_nat (sp_sum row) / of_nat (sp_count row))\<bar> \<le>
          100 * (of_nat (sp_sum row) / of_nat (sp_count row)) / 2 ^ 51 \<and>
        sp_count row = length (filter (\<lambda>r. record_key r = row_key row) data) \<and>
        sp_sum row =
          length (filter (\<lambda>r. record_key r = row_key row \<and> answered_true (is_correct r)) data)"
    if "row \<in> set sp" for row
  proof -
    from that obtain k where k: "k \<in> set (map record_key ?nd)" and
      row: "row = \<lparr>sp_student_id = fst k, sp_section = snd k,
          sp_sum = agg_sum (section_cells ?nd k), sp_count = agg_count (section_cells ?nd k),
          score_percentage =
            float64_round
              (float64_round (of_nat (agg_sum (section_cells ?nd k)) /
                 of_nat (agg_count (section_cells ?nd k))) * 100)\<rparr>"
      unfolding sp by (auto simp: set_group_keys)
    have key: "row_key row = k" by (simp add: row row_key_def)
    have c1: "sp_sum row \<le> sp_count row"
      by (simp add: row agg_sum_le_count)
    have c2: "1 \<le> sp_count row"
      using pos [OF k] by (simp add: row)
    have c3: "score_percentage row =
          float64_round (float64_round (of_nat (sp_sum row) / of_nat (sp_count row)) * 100)"
      by (simp add: row)
    have "0 \<le> (of_nat (sp_sum row) / of_nat (sp_count row) :: rat)" by simp
    from percentage_error [OF this]
    have c4: "\<bar>score_percentage row - 100 * (of_nat (sp_sum row) / of_nat (sp_count row))\<bar> \<le>
          100 * (of_nat (sp_sum row) / of_nat (sp_count row)) / 2 ^ 51"
      unfolding c3 .
    have c5: "sp_count row = length (filter (\<lambda>r. record_key r = row_key row) data)"
      unfolding key by (simp add: row cnt)
    have c6: "sp_sum row =
          length (filter (\<lambda>r. record_key r = row_key row \<and> answered_true (is_correct r)) data)"
      unfolding key by (simp add: row sm)
    from c1 c2 c3 c4 c5 c6 show ?thesis by (intro conjI)
  qed
  have d: "distinct (map row_key sp)"
    unfolding rk by (rule distinct_group_keys)
  have s: "set (map row_key sp) = set (map record_key data)"
    unfolding rk by (rule set_group_keys)
  from res d s rows show ?thesis by blast
qed

theorem C7_section_rows_witness:
  "well_formed example_unequal_counts \<and>
   (\<exists>sp so lr. calculate_student_metrics example_unequal_counts = Inr (sp, so, lr) \<and>
      distinct (map row_key sp) \<and> set (map row_key sp) = {(1, ''A''), (2, ''A'')})"
proof -
  have wf: "well_formed example_unequal_counts"
    by (simp add: well_formed_def example_unequal_counts_def answers_def)
  have keys: "set (map record_key example_unequal_counts) = {(1, ''A''), (2, ''A'')}"
    by (simp add: example_unequal_counts_def answers_def record_key_def)
  from C7_section_rows [OF wf] keys wf show ?thesis
    by metis
qed

section \<open>Values outside the accepted ones\<close>




section \<open>The cohort average of a section\<close>



section \<open>The tiers of the recommendations\<close>

text \<open>
  The first text of the block that \<^verbatim>\<open>get_section_specific_recommendations\<close> returns
  for a section starts with the words of the performance tier, followed by the score, the
  absolute difference, the words of the relation to the average, and the average. The block
  of the lowest tier has three texts, the others have two.
\<close>

lemma tier_block_A:
  "take 8 (hd (get_section_specific_recommendations ''A'' score avg_score diff)) =
     [Lit (if 80 \<le> score then ''Outstanding performance in Math! Your score (''
           else if 60 \<le> score then ''Good performance in Math. Your score (''
           else if 40 \<le> score then ''Fair performance in Math. Your score (''
           else ''You need significant improvement in Math. Your score (''),
      F1 score, Lit ''%) is '', F1 \<bar>diff\<bar>, Lit ''% '',
      Lit (if 5 < diff then ''above average'' else if diff < - 5 then ''below average''
           else ''at the class average''),
      Lit '' ('', F1 avg_score] \<and>
   length (get_section_specific_recommendations ''A'' score avg_score diff) =
     (if score < 40 then 3 else 2)"
  by (simp add: get_section_specific_recommendations_def performance_level_def
      relation_to_avg_def Let_def)

lemma tier_block_B:
  "take 8 (hd (get_section_specific_recommendations ''B'' score avg_score diff)) =
     [Lit (if 80 \<le> score then ''Outstanding verbal reasoning skills! Your score (''
           else if 60 \<le> score then ''Good verbal reasoning abilities. Your score (''
           else if 40 \<le> score then ''Fair verbal performance. Your score (''
           else ''You need significant improvement in verbal reasoning. Your score (''),
      F1 score, Lit ''%) is '', F1 \<bar>diff\<bar>, Lit ''% '',
      Lit (if 5 < diff then ''above average'' else if diff < - 5 then ''below average''
           else ''at the class average''),
      Lit '' ('', F1 avg_score] \<and>
   length (get_section_specific_recommendations ''B'' score avg_score diff) =
     (if score < 40 then 3 else 2)"
  by (simp add: get_section_specific_recommendations_def performance_level_def
      relation_to_avg_def Let_def)

lemma tier_block_C:
  "take 8 (hd (get_section_specific_recommendations ''C'' score avg_score diff)) =
     [Lit (if 80 \<le> score then ''Exceptional non-verbal reasoning abilities! Your score (''
           else if 60 \<le> score then ''Good non-verbal reasoning skills. Your score (''
           else if 40 \<le> score then ''Fair non-verbal performance. Your score (''
           else ''You need significant improvement in non-verbal reasoning. Your score (''),
      F1 score, Lit ''%) is '', F1 \<bar>diff\<bar>, Lit ''% '',
      Lit (if 5 < diff then ''above average'' else if diff < - 5 then ''below average''
           else ''at the class average''),
      Lit '' ('', F1 avg_score] \<and>
   length (get_section_specific_recommendations ''C'' score avg_score diff) =
     (if score < 40 then 3 else 2)"
  by (simp add: get_section_specific_recommendations_def performance_level_def
      relation_to_avg_def Let_def)

lemma tier_block_D:
  "take 8 (hd (get_section_specific_recommendations ''D'' score avg_score diff)) =
     [Lit (if 80 \<le> score then ''Outstanding reading comprehension skills! Your score (''
           else if 60 \<le> score then ''Good reading comprehension abilities. Your score (''
           else if 40 \<le> score then ''Fair reading comprehension. Your score (''
           else ''You need significant improvement in reading comprehension. Your score (''),
      F1 score, Lit ''%) is '', F1 \<bar>diff\<bar>, Lit ''% '',
      Lit (if 5 < diff then ''above average'' else if diff < - 5 then ''below average''
           else ''at the class average''),
      Lit '' ('', F1 avg_score] \<and>
   length (get_section_specific_recommendations ''D'' score avg_score diff) =
     (if score < 40 then 3 else 2)"
  by (simp add: get_section_specific_recommendations_def performance_level_def
      relation_to_avg_def Let_def)

text \<open>
  C2. The performance level is "excellent" exactly for scores of at least 80, "good" from 60
  up to but excluding 80, "fair" from 40 up to but excluding 60, and "poor" below 40. The
  relation to the average is "above average" exactly when the difference exceeds 5, "below
  average" exactly when it is under -5, and "at the class average" otherwise, so also at a
  difference of exactly 5. For each of the sections A to D the function selects the text
  block with these boundaries: the block returned for a section, a score, an average and a
  difference opens with the words of the tier of the score and names the relation of the
  difference.
\<close>

theorem C2_tiers:
  "(performance_level score = ''excellent'' \<longleftrightarrow> score \<ge> 80) \<and>
   (performance_level score = ''good'' \<longleftrightarrow> 60 \<le> score \<and> score < 80) \<and>
   (performance_level score = ''fair'' \<longleftrightarrow> 40 \<le> score \<and> score < 60) \<and>
   (performance_level score = ''poor'' \<longleftrightarrow> score < 40) \<and>
   (relation_to_avg diff = ''above average'' \<longleftrightarrow> diff > 5) \<and>
   (relation_to_avg diff = ''below average'' \<longleftrightarrow> diff < - 5) \<and>
   (relation_to_avg diff = ''at the class average'' \<longleftrightarrow> - 5 \<le> diff \<and> diff \<le> 5) \<and>
   take 8 (hd (get_section_specific_recommendations ''A'' score avg_score diff)) =
     [Lit (if 80 \<le> score then ''Outstanding performance in Math! Your score (''
           else if 60 \<le> score then ''Good performance in Math. Your score (''
           else if 40 \<le> score then ''Fair performance in Math. Your score (''
           else ''You need significant improvement in Math. Your score (''),
      F1 score, Lit ''%) is '', F1 \<bar>diff\<bar>, Lit ''% '',
      Lit (if 5 < diff then ''above average'' else if diff < - 5 then ''below average''
           else ''at the class average''),
      Lit '' ('', F1 avg_score] \<and>
   length (get_section_specific_recommendations ''A'' score avg_score diff) =
     (if score < 40 then 3 else 2) \<and>
   take 8 (hd (get_section_specific_recommendations ''B'' score avg_score diff)) =
     [Lit (if 80 \<le> score then ''Outstanding verbal reasoning skills! Your score (''
           else if 60 \<le> score then ''Good verbal reasoning abilities. Your score (''
           else if 40 \<le> score then ''Fair verbal performance. Your score (''
           else ''You need significant improvement in verbal reasoning. Your score (''),
      F1 score, Lit ''%) is '', F1 \<bar>diff\<bar>, Lit ''% '',
      Lit (if 5 < diff then ''above average'' else if diff < - 5 then ''below average''
           else ''at the class average''),
      Lit '' ('', F1 avg_score] \<and>
   length (get_section_specific_recommendations ''B'' score avg_score diff) =
     (if score < 40 then 3 else 2) \<and>
   take 8 (hd (get_section_specific_recommendations ''C'' score avg_score diff)) =
     [Lit (if 80 \<le> score then ''Exceptional non-verbal reasoning abilities! Your score (''
           else if 60 \<le> score then ''Good non-verbal reasoning skills. Your score (''
           else if 40 \<le> score then ''Fair non-verbal performance. Your score (''
           else ''You need significant improvement in non-verbal reasoning. Your score (''),
      F1 score, Lit ''%) is '', F1 \<bar>diff\<bar>, Lit ''% '',
      Lit (if 5 < diff then ''above average'' else if diff < - 5 then ''below average''
           else ''at the class average''),
      Lit '' ('', F1 avg_score] \<and>
   length (get_section_specific_recommendations ''C'' score avg_score diff) =
     (if score < 40 then 3 else 2) \<and>
   take 8 (hd (get_section_specific_recommendations ''D'' score avg_score diff)) =
     [Lit (if 80 \<le> score then ''Outstanding reading comprehension skills! Your score (''
           else if 60 \<le> score then ''Good reading comprehension abilities. Your score (''
           else if 40 \<le> score then ''Fair reading comprehension. Your score (''
           else ''You need significant improvement in reading comprehension. Your score (''),
      F1 score, Lit ''%) is '', F1 \<bar>diff\<bar>, Lit ''% '',
      Lit (if 5 < diff then ''above average'' else if diff < - 5 then ''below average''
           else ''at the class average''),
      Lit '' ('', F1 avg_score] \<and>
   length (get_section_specific_recommendations ''D'' score avg_score diff) =
     (if score < 40 then 3 else 2)"
proof -
  have tiers: "(performance_level score = ''excellent'' \<longleftrightarrow> score \<ge> 80) \<and>
   (performance_level score = ''good'' \<longleftrightarrow> 60 \<le> score \<and> score < 80) \<and>
   (performance_level score = ''fair'' \<longleftrightarrow> 40 \<le> score \<and> score < 60) \<and>
   (performance_level score = ''poor'' \<longleftrightarrow> score < 40) \<and>
   (relation_to_avg diff = ''above average'' \<longleftrightarrow> diff > 5) \<and>
   (relation_to_avg diff = ''below average'' \<longleftrightarrow> diff < - 5) \<and>
   (relation_to_avg diff = ''at the class average'' \<longleftrightarrow> - 5 \<le> diff \<and> diff \<le> 5)"
    by (simp add: performance_level_def relation_to_avg_def)
  show ?thesis
    using tiers tier_block_A [of score avg_score diff] tier_block_B [of score avg_score diff]
      tier_block_C [of score avg_score diff] tier_block_D [of score avg_score diff]
    by (elim conjE) (intro conjI; assumption)
qed

theorem C2_tiers_witness:
  "performance_level 80 = ''excellent'' \<and> performance_level 60 = ''good'' \<and>
   performance_level 40 = ''fair'' \<and> performance_level (399 / 10) = ''poor'' \<and>
   relation_to_avg 5 = ''at the class average'' \<and> relation_to_avg (51 / 10) = ''above average'' \<and>
   take 8 (hd (get_section_specific_recommendations ''A'' 80 75 5)) =
     [Lit ''Outstanding performance in Math! Your score ('', F1 80, Lit ''%) is '', F1 5,
      Lit ''% '', Lit ''at the class average'', Lit '' ('', F1 75] \<and>
   take 8 (hd (get_section_specific_recommendations ''B'' 60 (549 / 10) (51 / 10))) =
     [Lit ''Good verbal reasoning abilities. Your score ('', F1 60, Lit ''%) is '',
      F1 (51 / 10), Lit ''% '', Lit ''above average'', Lit '' ('', F1 (549 / 10)] \<and>
   take 8 (hd (get_section_specific_recommendations ''C'' 40 (451 / 10) (- (51 / 10)))) =
     [Lit ''Fair non-verbal performance. Your score ('', F1 40, Lit ''%) is '',
      F1 (51 / 10), Lit ''% '', Lit ''below average'', Lit '' ('', F1 (451 / 10)] \<and>
   take 8 (hd (get_section_specific_recommendations ''D'' (399 / 10) (449 / 10) (- 5))) =
     [Lit ''You need significant improvement in reading comprehension. Your score ('',
      F1 (399 / 10), Lit ''%) is '', F1 5, Lit ''% '', Lit ''at the class average'',
      Lit '' ('', F1 (449 / 10)]"
  using C2_tiers [where score = 80 and diff = 5 and avg_score = 75]
    C2_tiers [where score = 60 and diff = "51 / 10" and avg_score = "549 / 10"]
    C2_tiers [where score = 40 and diff = "- (51 / 10)" and avg_score = "451 / 10"]
    C2_tiers [where score = "399 / 10" and diff = "- 5" and avg_score = "449 / 10"]
  by simp

section \<open>The evaluation stub\<close>

text \<open>
  C9. Whatever the records hold, the stub returns the accuracy 95 and the precision 93, and
  one prediction row per distinct student id of the frame; every row is labelled
  "Above Average" as predicted and as actual performance and is marked a correct prediction.
\<close>

theorem C9_stub:
  "fst (evaluate_model data lr) = 95 \<and> fst (snd (evaluate_model data lr)) = 93 \<and>
   map pr_student_id (snd (snd (evaluate_model data lr))) = unique (map student_id data) \<and>
   distinct (map pr_student_id (snd (snd (evaluate_model data lr)))) \<and>
   set (map pr_student_id (snd (snd (evaluate_model data lr)))) = set (map student_id data) \<and>
   (\<forall>row\<in>set (snd (snd (evaluate_model data lr))).
      predicted_performance row = ''Above Average'' \<and>
      actual_performance row = ''Above Average'' \<and> correct_prediction row)"
  by (auto simp: evaluate_model_def comp_def distinct_unique set_unique)

theorem C9_stub_witness:
  "evaluate_model example_unequal_counts [] =
     (95, 93,
      [\<lparr>pr_student_id = 1, predicted_performance = ''Above Average'',
         actual_performance = ''Above Average'', correct_prediction = True\<rparr>,
       \<lparr>pr_student_id = 2, predicted_performance = ''Above Average'',
         actual_performance = ''Above Average'', correct_prediction = True\<rparr>])"
  using C9_stub [of example_unequal_counts "[]"]
  by (simp add: evaluate_model_def example_unequal_counts_def answers_def unique_def)

section \<open>Strengths and weaknesses\<close>








lemma sorting_kind_stable_sort: "sorting_kind stable_sort"
  by (simp add: sorting_kind_def stable_sort_def)













section \<open>Recommendations for all sections\<close>













section \<open>Recommendations for the weaknesses only\<close>








lemma sort_values_desc_single:
  assumes "sorting_kind kind"
  shows "sort_values_desc kind [c] = [c]"
proof -
  from assms have "mset (kind [c]) = {#c#}" by (simp add: sorting_kind_def)
  then have "kind [c] = [c]" by (simp add: mset_single_iff_right)
  then show ?thesis by (simp add: sort_values_desc_def)
qed

lemma example_single_section_classified:
  assumes "sorting_kind kind"
  shows "identify_strengths_weaknesses kind example_single_section_table
     example_single_section_avg = Inr example_single_section_sw"
  by (simp add: identify_strengths_weaknesses_def classify_student_def unique_def
      compare_row_def lookup_avg_def head_def tail_def sort_values_desc_single [OF assms]
      example_single_section_table_def example_single_section_avg_def
      example_single_section_sw_def)

text \<open>
  C6. The claim: in the weaknesses-only mode a text is only emitted for a section whose
  score is below the cohort average of that section. In \<open>example_single_section\<close> student 1
  scores 100 per cent in section A, the cohort average is 50, and section A still is the
  student's weakness: the text "doing well in math but still 50.0% below the class average
  (50.0%)" is emitted for a score above the average, whatever sorting algorithm the library
  uses.
\<close>

theorem C6_weakness_above_average:
  assumes kind: "sorting_kind kind"
  shows "calculate_student_metrics example_single_section =
     Inr (example_single_section_table,
          [\<lparr>so_student_id = 1, so_sum = 1, so_count = 1, overall_score = 100\<rparr>,
           \<lparr>so_student_id = 2, so_sum = 0, so_count = 1, overall_score = 0\<rparr>],
          [\<lparr>lr_student_id = 1, learning_rate = 0\<rparr>, \<lparr>lr_student_id = 2, learning_rate = 0\<rparr>]) \<and>
   map score_percentage example_single_section_table = [100, 0] \<and>
   fst (calculate_average_performance example_single_section_table []) =
     [\<lparr>as_section = ''A'', avg_score_percentage = 50\<rparr>] \<and>
   run_pipeline kind example_single_section False =
     Inr [(1, WeaknessesOnly
            [[Lit ''Math'', Lit '' (Section '', Lit ''A'',
              Lit ''): You're doing well in math but still '', F1 50,
              Lit ''% below the class average ('', F1 50,
              Lit ''%). Focus on advanced topics and complex problem-solving techniques.'']]),
          (2, WeaknessesOnly
            [[Lit ''Math'', Lit '' (Section '', Lit ''A'',
              Lit ''): You need significant improvement in mathematical concepts. Your score ('',
              F1 0, Lit ''%) is '', F1 50, Lit ''% below the class average ('', F1 50,
              Lit ''%). Focus on basic arithmetic, algebra, and geometry fundamentals.'']])]"
proof -
  have m: "calculate_student_metrics example_single_section =
     Inr (example_single_section_table,
          [\<lparr>so_student_id = 1, so_sum = 1, so_count = 1, overall_score = 100\<rparr>,
           \<lparr>so_student_id = 2, so_sum = 0, so_count = 1, overall_score = 0\<rparr>],
          [\<lparr>lr_student_id = 1, learning_rate = 0\<rparr>, \<lparr>lr_student_id = 2, learning_rate = 0\<rparr>])"
    by code_simp
  have s: "map score_percentage example_single_section_table = [100, 0]"
    by (simp add: example_single_section_table_def)
  have a: "fst (calculate_average_performance example_single_section_table so) =
     example_single_section_avg" for so
    by (simp add: calculate_average_performance_def example_single_section_table_def
        example_single_section_avg_def group_keys_def mean_def)
  have g: "generate_recommendations example_single_section_sw
       [\<lparr>lr_student_id = 1, learning_rate = 0\<rparr>, \<lparr>lr_student_id = 2, learning_rate = 0\<rparr>]
       example_single_section_table example_single_section_avg False =
     Inr [(1, WeaknessesOnly
            [[Lit ''Math'', Lit '' (Section '', Lit ''A'',
              Lit ''): You're doing well in math but still '', F1 50,
              Lit ''% below the class average ('', F1 50,
              Lit ''%). Focus on advanced topics and complex problem-solving techniques.'']]),
          (2, WeaknessesOnly
            [[Lit ''Math'', Lit '' (Section '', Lit ''A'',
              Lit ''): You need significant improvement in mathematical concepts. Your score ('',
              F1 0, Lit ''%) is '', F1 50, Lit ''% below the class average ('', F1 50,
              Lit ''%). Focus on basic arithmetic, algebra, and geometry fundamentals.'']])]"
    by code_simp
  have r: "run_pipeline kind example_single_section False =
     Inr [(1, WeaknessesOnly
            [[Lit ''Math'', Lit '' (Section '', Lit ''A'',
              Lit ''): You're doing well in math but still '', F1 50,
              Lit ''% below the class average ('', F1 50,
              Lit ''%). Focus on advanced topics and complex problem-solving techniques.'']]),
          (2, WeaknessesOnly
            [[Lit ''Math'', Lit '' (Section '', Lit ''A'',
              Lit ''): You need significant improvement in mathematical concepts. Your score ('',
              F1 0, Lit ''%) is '', F1 50, Lit ''% below the class average ('', F1 50,
              Lit ''%). Focus on basic arithmetic, algebra, and geometry fundamentals.'']])]"
    unfolding run_pipeline_def
    by (simp only: m a example_single_section_classified [OF kind] g sum.case prod.case Let_def)
  from m s a [of "[]"] r show ?thesis
    by (simp only: example_single_section_avg_def simp_thms)
qed

theorem C6_weakness_above_average_witness:
  "sorting_kind stable_sort \<and>
   run_pipeline stable_sort example_single_section False =
     Inr [(1, WeaknessesOnly
            [[Lit ''Math'', Lit '' (Section '', Lit ''A'',
              Lit ''): You're doing well in math but still '', F1 50,
              Lit ''% below the class average ('', F1 50,
              Lit ''%). Focus on advanced topics and complex problem-solving techniques.'']]),
          (2, WeaknessesOnly
            [[Lit ''Math'', Lit '' (Section '', Lit ''A'',
              Lit ''): You need significant improvement in mathematical concepts. Your score ('',
              F1 0, Lit ''%) is '', F1 50, Lit ''% below the class average ('', F1 50,
              Lit ''%). Focus on basic arithmetic, algebra, and geometry fundamentals.'']])]"
proof -
  from C6_weakness_above_average [OF sorting_kind_stable_sort]
  have "run_pipeline stable_sort example_single_section False =
     Inr [(1, WeaknessesOnly
            [[Lit ''Math'', Lit '' (Section '', Lit ''A'',
              Lit ''): You're doing well in math but still '', F1 50,
              Lit ''% below the class average ('', F1 50,
              Lit ''%). Focus on advanced topics and complex problem-solving techniques.'']]),
          (2, WeaknessesOnly
            [[Lit ''Math'', Lit '' (Section '', Lit ''A'',
              Lit ''): You need significant improvement in mathematical concepts. Your score ('',
              F1 0, Lit ''%) is '', F1 50, Lit ''% below the class average ('', F1 50,
              Lit ''%). Focus on basic arithmetic, algebra, and geometry fundamentals.'']])]"
    by (elim conjE)
  with sorting_kind_stable_sort show ?thesis by (intro conjI)
qed

end
